theory Spec2Isabelle
  imports
    Main
    "HOL-Library.Word"
    "HOL-Library.Char_ord"
    "HOL-Library.List_Lexorder"
    "HOL-Library.Multiset"
begin

unbundle bit_operations_syntax

section \<open>Strings and bytes\<close>

text \<open>
  A Python \<open>str\<close> is modelled by the list of its UTF-8 code units (\<^typ>\<open>string\<close>), a
  \<open>bytes\<close> value by a list of 8-bit words. \<open>str.lower\<close> and \<open>str.strip\<close> are modelled
  on ASCII: \<open>lower\<close> maps the letters \<open>A\<close>..\<open>Z\<close> and keeps every other code unit,
  \<open>strip\<close> removes the ten ASCII characters that \<open>str.isspace\<close> accepts. On a string
  that \<open>isascii\<close> accepts they are Python's functions; Python also lowers non-ASCII cased
  letters and strips non-ASCII spaces, which the model does not, so every statement
  below that lowercases or strips an email assumes the email ASCII. The test
  \<open>filename.lower().endswith(".pdf")\<close> needs no such assumption: no non-ASCII character
  lowers to a dot or to one of the letters p, d, f.
\<close>

type_synonym byte = "8 word"
type_synonym bytes = "byte list"
type_synonym u32 = "32 word"

definition lower_char :: "char \<Rightarrow> char" where
  "lower_char c =
     (let n = (of_char c :: nat) in if 65 \<le> n \<and> n \<le> 90 then char_of (n + 32) else c)"

definition lower :: "string \<Rightarrow> string" where
  "lower s = map lower_char s"

definition isascii :: "string \<Rightarrow> bool" where
  "isascii s = list_all (\<lambda>c. (of_char c :: nat) < 128) s"

definition is_space :: "char \<Rightarrow> bool" where
  "is_space c = (let n = (of_char c :: nat) in (9 \<le> n \<and> n \<le> 13) \<or> (28 \<le> n \<and> n \<le> 32))"

definition strip :: "string \<Rightarrow> string" where
  "strip s = rev (dropWhile is_space (rev (dropWhile is_space s)))"

definition endswith :: "string \<Rightarrow> string \<Rightarrow> bool" where
  "endswith s suffix =
     (length suffix \<le> length s \<and> drop (length s - length suffix) s = suffix)"

definition encode_utf8 :: "string \<Rightarrow> bytes" where
  "encode_utf8 s = map of_char s"

section \<open>\<open>hashlib.md5\<close> (RFC 1321)\<close>

definition md5_K :: "u32 list" where
  "md5_K =
    [0xd76aa478, 0xe8c7b756, 0x242070db, 0xc1bdceee, 0xf57c0faf, 0x4787c62a, 0xa8304613,
     0xfd469501, 0x698098d8, 0x8b44f7af, 0xffff5bb1, 0x895cd7be, 0x6b901122, 0xfd987193,
     0xa679438e, 0x49b40821, 0xf61e2562, 0xc040b340, 0x265e5a51, 0xe9b6c7aa, 0xd62f105d,
     0x02441453, 0xd8a1e681, 0xe7d3fbc8, 0x21e1cde6, 0xc33707d6, 0xf4d50d87, 0x455a14ed,
     0xa9e3e905, 0xfcefa3f8, 0x676f02d9, 0x8d2a4c8a, 0xfffa3942, 0x8771f681, 0x6d9d6122,
     0xfde5380c, 0xa4beea44, 0x4bdecfa9, 0xf6bb4b60, 0xbebfbc70, 0x289b7ec6, 0xeaa127fa,
     0xd4ef3085, 0x04881d05, 0xd9d4d039, 0xe6db99e5, 0x1fa27cf8, 0xc4ac5665, 0xf4292244,
     0x432aff97, 0xab9423a7, 0xfc93a039, 0x655b59c3, 0x8f0ccc92, 0xffeff47d, 0x85845dd1,
     0x6fa87e4f, 0xfe2ce6e0, 0xa3014314, 0x4e0811a1, 0xf7537e82, 0xbd3af235, 0x2ad7d2bb,
     0xeb86d391]"

definition md5_S :: "nat list" where
  "md5_S =
    [7, 12, 17, 22, 7, 12, 17, 22, 7, 12, 17, 22, 7, 12, 17, 22,
     5, 9, 14, 20, 5, 9, 14, 20, 5, 9, 14, 20, 5, 9, 14, 20,
     4, 11, 16, 23, 4, 11, 16, 23, 4, 11, 16, 23, 4, 11, 16, 23,
     6, 10, 15, 21, 6, 10, 15, 21, 6, 10, 15, 21, 6, 10, 15, 21]"

definition rotl32 :: "u32 \<Rightarrow> nat \<Rightarrow> u32" where
  "rotl32 x n = push_bit n x OR drop_bit (32 - n) x"

type_synonym md5_state = "u32 \<times> u32 \<times> u32 \<times> u32"

fun md5_step :: "u32 list \<Rightarrow> nat \<Rightarrow> md5_state \<Rightarrow> md5_state" where
  "md5_step M i (A, B, C, D) =
     (let F = (if i < 16 then (B AND C) OR (NOT B AND D)
               else if i < 32 then (D AND B) OR (NOT D AND C)
               else if i < 48 then B XOR C XOR D
               else C XOR (B OR NOT D));
          g = (if i < 16 then i
               else if i < 32 then (5 * i + 1) mod 16
               else if i < 48 then (3 * i + 5) mod 16
               else (7 * i) mod 16);
          F' = F + A + md5_K ! i + M ! g
      in (D, B + rotl32 F' (md5_S ! i), B, C))"

fun le_word :: "bytes \<Rightarrow> u32" where
  "le_word [] = 0"
| "le_word (b # bs) = ucast b + 256 * le_word bs"

fun words_of :: "nat \<Rightarrow> bytes \<Rightarrow> u32 list" where
  "words_of 0 bs = []"
| "words_of (Suc n) bs = le_word (take 4 bs) # words_of n (drop 4 bs)"

definition md5_block :: "md5_state \<Rightarrow> bytes \<Rightarrow> md5_state" where
  "md5_block st blk =
     (let M = words_of 16 blk;
          (a0, b0, c0, d0) = st;
          (A, B, C, D) = fold (md5_step M) [0..<64] st
      in (a0 + A, b0 + B, c0 + C, d0 + D))"

fun md5_blocks :: "nat \<Rightarrow> md5_state \<Rightarrow> bytes \<Rightarrow> md5_state" where
  "md5_blocks 0 st bs = st"
| "md5_blocks (Suc n) st bs = md5_blocks n (md5_block st (take 64 bs)) (drop 64 bs)"

definition le_bytes32 :: "u32 \<Rightarrow> bytes" where
  "le_bytes32 w = map (\<lambda>k. ucast (drop_bit (8 * k) w)) [0..<4]"

definition le_bytes64 :: "64 word \<Rightarrow> bytes" where
  "le_bytes64 w = map (\<lambda>k. ucast (drop_bit (8 * k) w)) [0..<8]"

definition md5_pad :: "bytes \<Rightarrow> bytes" where
  "md5_pad bs =
     bs @ [0x80] @ replicate ((119 - length bs mod 64) mod 64) 0
        @ le_bytes64 (8 * of_nat (length bs))"

definition md5_words :: "bytes \<Rightarrow> md5_state" where
  "md5_words bs =
     (let p = md5_pad bs
      in md5_blocks (length p div 64) (0x67452301, 0xefcdab89, 0x98badcfe, 0x10325476) p)"

definition md5 :: "bytes \<Rightarrow> bytes" where
  "md5 bs =
     (case md5_words bs of
        (a, b, c, d) \<Rightarrow> le_bytes32 a @ le_bytes32 b @ le_bytes32 c @ le_bytes32 d)"

definition hex_digit :: "nat \<Rightarrow> char" where
  "hex_digit n = (if n < 10 then char_of (48 + n) else char_of (87 + n))"

definition hex_byte :: "byte \<Rightarrow> string" where
  "hex_byte b = [hex_digit (unat (drop_bit 4 b)), hex_digit (unat (b AND 15))]"

definition hexdigest :: "bytes \<Rightarrow> string" where
  "hexdigest d = concat (map hex_byte d)"

section \<open>\<open>uuid.UUID\<close>\<close>

text \<open>
  \<open>uuid.UUID(hex=h)\<close> is modelled on strings of hexadecimal digits: it raises
  \<open>ValueError\<close> (here \<open>None\<close>) unless \<open>h\<close> has 32 characters, and otherwise holds
  \<open>int(h, 16)\<close>. The prefixes, braces and hyphens that the library strips first do not
  occur in a hexadecimal digest and are not modelled. \<open>str\<close> of a UUID prints the
  128-bit value as 32 lowercase hexadecimal digits in groups of 8-4-4-4-12.
\<close>

type_synonym UUID = "128 word"

definition hex_value :: "char \<Rightarrow> nat option" where
  "hex_value c =
     (let n = (of_char c :: nat) in
      if 48 \<le> n \<and> n \<le> 57 then Some (n - 48)
      else if 97 \<le> n \<and> n \<le> 102 then Some (n - 87)
      else if 65 \<le> n \<and> n \<le> 70 then Some (n - 55)
      else None)"

fun int_hex :: "UUID \<Rightarrow> string \<Rightarrow> UUID option" where
  "int_hex acc [] = Some acc"
| "int_hex acc (c # cs) =
     (case hex_value c of None \<Rightarrow> None | Some v \<Rightarrow> int_hex (16 * acc + of_nat v) cs)"

definition UUID_hex :: "string \<Rightarrow> UUID option" where
  "UUID_hex hex = (if length hex \<noteq> 32 then None else int_hex 0 hex)"

definition hex032 :: "UUID \<Rightarrow> string" where
  "hex032 u = map (\<lambda>k. hex_digit (unat (drop_bit (4 * (31 - k)) u AND 15))) [0..<32]"

definition str_UUID :: "UUID \<Rightarrow> string" where
  "str_UUID u =
     (let hex = hex032 u
      in take 8 hex @ ''-'' @ take 4 (drop 8 hex) @ ''-'' @ take 4 (drop 12 hex) @ ''-''
           @ take 4 (drop 16 hex) @ ''-'' @ drop 20 hex)"

definition create_uuid_from_string :: "string \<Rightarrow> string option" where
  "create_uuid_from_string val =
     (let hex_string = hexdigest (md5 (encode_utf8 val))
      in map_option str_UUID (UUID_hex hex_string))"

text \<open>The shape of a canonical UUID string: 36 characters, hyphens at 8, 13, 18 and 23,
  lowercase hexadecimal digits elsewhere.\<close>

definition is_lower_hex :: "char \<Rightarrow> bool" where
  "is_lower_hex c = (c \<in> set ''0123456789abcdef'')"

definition uuid_format :: "string \<Rightarrow> bool" where
  "uuid_format s =
     (length s = 36 \<and>
      list_all is_lower_hex (take 8 s) \<and> s ! 8 = CHR ''-'' \<and>
      list_all is_lower_hex (take 4 (drop 9 s)) \<and> s ! 13 = CHR ''-'' \<and>
      list_all is_lower_hex (take 4 (drop 14 s)) \<and> s ! 18 = CHR ''-'' \<and>
      list_all is_lower_hex (take 4 (drop 19 s)) \<and> s ! 23 = CHR ''-'' \<and>
      list_all is_lower_hex (drop 24 s))"

section \<open>Notions of the specification\<close>

text \<open>The normalisation the specification describes (lowercase, surrounding whitespace
  removed), written from its words.\<close>

definition spec_normalize :: "string \<Rightarrow> string" where
  "spec_normalize email = strip (lower email)"

text \<open>"Ends in \<open>.pdf\<close>, case-insensitive", written from the specification's words: the
  last four characters are a dot and the letters p, d, f, each in either case.\<close>

definition ends_in_pdf :: "string \<Rightarrow> bool" where
  "ends_in_pdf s =
     (case rev s of
        c # b # a # dot # _ \<Rightarrow>
          dot = CHR ''.'' \<and> (a = CHR ''p'' \<or> a = CHR ''P'') \<and> (b = CHR ''d'' \<or> b = CHR ''D'')
          \<and> (c = CHR ''f'' \<or> c = CHR ''F'')
      | _ \<Rightarrow> False)"

section \<open>Configuration\<close>

definition ATTORNEY_EMAIL :: string where
  "ATTORNEY_EMAIL = ''attorney@yourfirm.com''"

definition INTERNAL_API_KEY :: string where
  "INTERNAL_API_KEY = ''SECRET_INTERNAL_KEY''"

section \<open>Data model\<close>

datatype LeadState = PENDING | REACHED_OUT

record Lead =
  Lead_id :: string
  Lead_first_name :: string
  Lead_last_name :: string
  Lead_email :: string
  Lead_resume_filename :: string
  Lead_resume_data :: bytes
  Lead_state :: LeadState

record LeadOut =
  LeadOut_id :: string
  LeadOut_first_name :: string
  LeadOut_last_name :: string
  LeadOut_email :: string
  LeadOut_resume_filename :: string
  LeadOut_state :: LeadState

record LeadStateUpdate =
  LeadStateUpdate_state :: LeadState

record UploadFile =
  filename :: string
  read :: bytes

record Response =
  content :: bytes
  headers :: "(string \<times> string) list"
  media_type :: string

text \<open>
  \<open>LeadOut.from_orm\<close> copies the six fields of the row. pydantic validates the field
  \<open>email: EmailStr\<close> again on the way out; the copy is what it returns for an address
  that the route validated on the way in and \<open>create_lead\<close> stored in lowercase.
\<close>

definition from_orm :: "Lead \<Rightarrow> LeadOut" where
  "from_orm lead =
     \<lparr>LeadOut_id = Lead_id lead, LeadOut_first_name = Lead_first_name lead,
      LeadOut_last_name = Lead_last_name lead, LeadOut_email = Lead_email lead,
      LeadOut_resume_filename = Lead_resume_filename lead, LeadOut_state = Lead_state lead\<rparr>"

datatype exn =
    HTTPException nat string
  | ValueError
  | IntegrityError
  | InvalidRequestError
  | UnicodeEncodeError
  | RequestValidationError

section \<open>The session on table \<open>leads\<close>\<close>

text \<open>
  The table is the list of its rows in insertion order; \<open>id\<close> is the primary key.
  An instance of the mapped class held by a handler has the column attributes and, once
  \<open>update_resume\<close> has assigned it, the plain Python attribute \<open>resume_date\<close>, which is
  no column of the table: \<open>commit\<close> writes the columns only and \<open>refresh\<close> reloads them.
\<close>

type_synonym session = "Lead list"

record Lead_instance =
  columns :: Lead
  resume_date :: "bytes option"

definition loaded :: "Lead \<Rightarrow> Lead_instance" where
  "loaded row = \<lparr>columns = row, resume_date = None\<rparr>"

definition query_first :: "session \<Rightarrow> string \<Rightarrow> Lead option" where
  "query_first db lead_id = find (\<lambda>row. Lead_id row = lead_id) db"

text \<open>\<open>db.add(lead); db.commit()\<close>: an INSERT, refused (\<open>IntegrityError\<close>) when the
  primary key is taken.\<close>

definition add_commit :: "session \<Rightarrow> Lead_instance \<Rightarrow> session option" where
  "add_commit db lead =
     (if query_first db (Lead_id (columns lead)) \<noteq> None then None
      else Some (db @ [columns lead]))"

text \<open>\<open>db.commit()\<close> with a modified persistent instance: an UPDATE of the row with
  the instance's primary key.\<close>

definition commit :: "session \<Rightarrow> Lead_instance \<Rightarrow> session" where
  "commit db lead =
     map (\<lambda>row. if Lead_id row = Lead_id (columns lead) then columns lead else row) db"

definition refresh :: "session \<Rightarrow> Lead_instance \<Rightarrow> Lead_instance option" where
  "refresh db lead =
     map_option (\<lambda>row. lead\<lparr>columns := row\<rparr>) (query_first db (Lead_id (columns lead)))"

fun insort_desc :: "Lead \<Rightarrow> Lead list \<Rightarrow> Lead list" where
  "insort_desc x [] = [x]"
| "insort_desc x (y # ys) =
     (if Lead_id y \<le> Lead_id x then x # y # ys else y # insort_desc x ys)"

definition order_by_id_desc :: "session \<Rightarrow> Lead list" where
  "order_by_id_desc db = foldr insort_desc db []"

section \<open>Notifications\<close>

text \<open>\<open>send_email\<close> prints the message; the model appends it to the list of messages
  sent so far.\<close>

record email_msg =
  msg_to :: string
  msg_subject :: string
  msg_body :: string

record world =
  leads :: session
  sent :: "email_msg list"

definition send_email :: "string \<Rightarrow> string \<Rightarrow> string \<Rightarrow> world \<Rightarrow> world" where
  "send_email to subject body w =
     w\<lparr>sent := sent w @ [\<lparr>msg_to = to, msg_subject = subject, msg_body = body\<rparr>]\<rparr>"

section \<open>Public endpoint: submit a lead\<close>

datatype LeadOut_or_str = Str string | Out LeadOut

definition create_lead ::
  "string \<Rightarrow> string \<Rightarrow> string \<Rightarrow> UploadFile \<Rightarrow> world \<Rightarrow> (exn + LeadOut_or_str) \<times> world"
where
  "create_lead first_name last_name email resume w =
     (if \<not> endswith (lower (filename resume)) ''.pdf''
      then (Inr (Str ''file error: only pdf file of resume is allowed.''), w)
      else
        let email = lower email in
        case create_uuid_from_string email of
          None \<Rightarrow> (Inl ValueError, w)
        | Some lead_id \<Rightarrow>
            (case query_first (leads w) lead_id of
               Some _ \<Rightarrow> (Inr (Str ''you have already applied. you can update your resume''), w)
             | None \<Rightarrow>
                 let file_data = read resume;
                     lead = loaded
                       \<lparr>Lead_id = lead_id, Lead_first_name = first_name,
                        Lead_last_name = last_name, Lead_email = lower email,
                        Lead_resume_filename = filename resume, Lead_resume_data = file_data,
                        Lead_state = PENDING\<rparr>
                 in (case add_commit (leads w) lead of
                      None \<Rightarrow> (Inl IntegrityError, w)
                    | Some db \<Rightarrow>
                        let w = w\<lparr>leads := db\<rparr> in
                        (case refresh db lead of
                           None \<Rightarrow> (Inl InvalidRequestError, w)
                         | Some lead \<Rightarrow>
                             let w = send_email email ''Thank you for your submission!''
                                       (''Dear '' @ first_name @
                                        '',\<newline>\<newline>Thank you for submitting your lead. We will contact you soon.\<newline>'')
                                       w;
                                 w = send_email ATTORNEY_EMAIL ''New Lead Submitted''
                                       (''Lead from '' @ first_name @ '' '' @ last_name @
                                        '' ('' @ email @ '') received.'')
                                       w
                             in (Inr (Out (from_orm (columns lead))), w)))))"

text \<open>
  The route \<open>POST /leads\<close> declares \<open>email: EmailStr = Form(...)\<close>: the form value goes
  through pydantic's validation before \<open>create_lead\<close> runs. The validation is library
  code and is the parameter \<open>EmailStr\<close> here: \<open>None\<close> when it refuses the value (the
  request is answered with a validation error and the handler does not run), otherwise
  the address that it hands to the handler.
\<close>

definition POST_leads ::
  "(string \<Rightarrow> string option) \<Rightarrow> string \<Rightarrow> string \<Rightarrow> string \<Rightarrow> UploadFile \<Rightarrow> world
     \<Rightarrow> (exn + LeadOut_or_str) \<times> world"
where
  "POST_leads EmailStr first_name last_name email resume w =
     (case EmailStr email of
        None \<Rightarrow> (Inl RequestValidationError, w)
      | Some email \<Rightarrow> create_lead first_name last_name email resume w)"

section \<open>Internal endpoints\<close>

definition get_api_key :: "string option \<Rightarrow> exn + unit" where
  "get_api_key api_key =
     (if api_key \<noteq> Some INTERNAL_API_KEY then Inl (HTTPException 401 ''Unauthorized'')
      else Inr ())"

definition get_leads :: "session \<Rightarrow> (exn + LeadOut list) \<times> session" where
  "get_leads db = (Inr (map from_orm (order_by_id_desc db)), db)"

definition get_lead :: "string \<Rightarrow> session \<Rightarrow> (exn + LeadOut) \<times> session" where
  "get_lead lead_id db =
     (case query_first db lead_id of
        None \<Rightarrow> (Inl (HTTPException 404 ''Lead not found''), db)
      | Some lead \<Rightarrow> (Inr (from_orm lead), db))"

text \<open>
  \<open>Response\<close> encodes each header value in latin-1 and raises \<open>UnicodeEncodeError\<close> on a
  character above U+00FF, which in UTF-8 is one with a code unit from \<open>0xC4\<close> up.
\<close>

definition latin_1 :: "string \<Rightarrow> bool" where
  "latin_1 s = list_all (\<lambda>c. (of_char c :: nat) < 196) s"

definition download_resume :: "string \<Rightarrow> session \<Rightarrow> (exn + Response) \<times> session" where
  "download_resume lead_id db =
     (case query_first db lead_id of
        None \<Rightarrow> (Inl (HTTPException 404 ''Lead not found''), db)
      | Some lead \<Rightarrow>
          if \<not> latin_1 (Lead_resume_filename lead) then (Inl UnicodeEncodeError, db)
          else
            (Inr \<lparr>content = Lead_resume_data lead,
                  headers = [(''Content-Disposition'',
                              ''attachment; filename='' @ [CHR 0x22] @ Lead_resume_filename lead
                                @ [CHR 0x22])],
                  media_type = ''application/pdf''\<rparr>, db))"

definition update_resume ::
  "string \<Rightarrow> UploadFile \<Rightarrow> session \<Rightarrow> (exn + LeadOut) \<times> session"
where
  "update_resume lead_id resume db =
     (case query_first db lead_id of
        None \<Rightarrow> (Inl (HTTPException 404 ''Lead not found''), db)
      | Some row \<Rightarrow>
          let lead = loaded row;
              lead = lead\<lparr>columns := (columns lead)\<lparr>Lead_state := PENDING\<rparr>\<rparr>;
              lead = lead\<lparr>columns := (columns lead)\<lparr>Lead_resume_filename := filename resume\<rparr>\<rparr>;
              file_data = read resume;
              lead = lead\<lparr>resume_date := Some file_data\<rparr>;
              db = commit db lead
          in (case refresh db lead of
                None \<Rightarrow> (Inl InvalidRequestError, db)
              | Some lead \<Rightarrow> (Inr (from_orm (columns lead)), db)))"

definition update_lead_state ::
  "string \<Rightarrow> LeadStateUpdate \<Rightarrow> session \<Rightarrow> (exn + LeadOut) \<times> session"
where
  "update_lead_state lead_id update db =
     (case query_first db lead_id of
        None \<Rightarrow> (Inl (HTTPException 404 ''Lead not found''), db)
      | Some row \<Rightarrow>
          let lead = loaded row;
              lead = lead\<lparr>columns := (columns lead)\<lparr>Lead_state := LeadStateUpdate_state update\<rparr>\<rparr>;
              db = commit db lead
          in (case refresh db lead of
                None \<Rightarrow> (Inl InvalidRequestError, db)
              | Some lead \<Rightarrow> (Inr (from_orm (columns lead)), db)))"

text \<open>A route declared with \<open>dependencies=[Depends(get_api_key)]\<close>: the dependency
  runs first, and the handler runs only if it did not raise.\<close>

definition Depends_get_api_key ::
  "string option \<Rightarrow> (session \<Rightarrow> (exn + 'a) \<times> session) \<Rightarrow> session \<Rightarrow> (exn + 'a) \<times> session"
where
  "Depends_get_api_key api_key handler db =
     (case get_api_key api_key of Inl e \<Rightarrow> (Inl e, db) | Inr _ \<Rightarrow> handler db)"

definition GET_leads :: "string option \<Rightarrow> session \<Rightarrow> (exn + LeadOut list) \<times> session" where
  "GET_leads api_key = Depends_get_api_key api_key get_leads"

definition GET_lead :: "string option \<Rightarrow> string \<Rightarrow> session \<Rightarrow> (exn + LeadOut) \<times> session" where
  "GET_lead api_key lead_id = Depends_get_api_key api_key (get_lead lead_id)"

definition GET_lead_resume ::
  "string option \<Rightarrow> string \<Rightarrow> session \<Rightarrow> (exn + Response) \<times> session"
where
  "GET_lead_resume api_key lead_id = Depends_get_api_key api_key (download_resume lead_id)"

definition PUT_lead_resume ::
  "string option \<Rightarrow> string \<Rightarrow> UploadFile \<Rightarrow> session \<Rightarrow> (exn + LeadOut) \<times> session"
where
  "PUT_lead_resume api_key lead_id resume =
     Depends_get_api_key api_key (update_resume lead_id resume)"

definition PUT_lead_state ::
  "string option \<Rightarrow> string \<Rightarrow> LeadStateUpdate \<Rightarrow> session \<Rightarrow> (exn + LeadOut) \<times> session"
where
  "PUT_lead_state api_key lead_id update =
     Depends_get_api_key api_key (update_lead_state lead_id update)"

section \<open>Example data\<close>

definition empty_world :: world where
  "empty_world = \<lparr>leads = [], sent = []\<rparr>"

definition jane_id :: string where
  "jane_id = ''0cba00ca-3da1-b283-a572-87bcceb17e35''"

definition jane :: Lead where
  "jane = \<lparr>Lead_id = jane_id, Lead_first_name = ''Jane'', Lead_last_name = ''Doe'',
            Lead_email = ''jane.doe@example.com'', Lead_resume_filename = ''resume.pdf'',
            Lead_resume_data = [0x25, 0x50, 0x44, 0x46], Lead_state = REACHED_OUT\<rparr>"

definition resume2 :: UploadFile where
  "resume2 = \<lparr>filename = ''resume2.pdf'', read = [0x25, 0x50, 0x44, 0x46, 0x2D, 0x32]\<rparr>"

definition jane_form :: UploadFile where
  "jane_form = \<lparr>filename = ''resume.pdf'', read = [0x25, 0x50, 0x44, 0x46]\<rparr>"

definition padded_Jane :: string where
  "padded_Jane = [CHR 0x09] @ '' Jane.Doe@Example.com '' @ [CHR 0x0A]"

definition ann_id :: string where
  "ann_id = ''5d60d4e2-8066-df25-4d54-52f92c910092''"

definition ann :: Lead where
  "ann = \<lparr>Lead_id = ann_id, Lead_first_name = ''Ann'', Lead_last_name = ''Bee'',
           Lead_email = ''a@b.c'', Lead_resume_filename = ''cv.PDF'',
           Lead_resume_data = [0x25, 0x50, 0x44, 0x46], Lead_state = PENDING\<rparr>"

section \<open>Properties of strings\<close>

lemma of_char_lower_char:
  "(of_char (lower_char c) :: nat) =
     (if 65 \<le> (of_char c :: nat) \<and> (of_char c :: nat) \<le> 90 then of_char c + 32 else of_char c)"
  by (simp add: lower_char_def Let_def)

lemma lower_char_idem: "lower_char (lower_char x) = lower_char x"
proof -
  have "(of_char (lower_char (lower_char x)) :: nat) = of_char (lower_char x)"
    by (simp add: of_char_lower_char)
  then show ?thesis by (simp only: of_char_eq_iff)
qed

lemma lower_lower: "lower (lower s) = lower s"
  by (simp add: lower_def lower_char_idem)

lemma lower_char_eq_iff:
  "lower_char x = y \<longleftrightarrow>
     (if 65 \<le> (of_char x :: nat) \<and> (of_char x :: nat) \<le> 90 then of_char x + 32 else of_char x)
       = (of_char y :: nat)"
  using of_char_lower_char [of x] of_char_eq_iff [of "lower_char x" y, where ?'a = nat] by simp

lemma char_eq_iff: "x = y \<longleftrightarrow> (of_char x :: nat) = of_char y"
  by simp

lemma lower_char_dot: "lower_char x = CHR ''.'' \<longleftrightarrow> x = CHR ''.''"
  by (simp add: lower_char_eq_iff char_eq_iff [of x])

lemma lower_char_p: "lower_char x = CHR ''p'' \<longleftrightarrow> x = CHR ''p'' \<or> x = CHR ''P''"
  by (auto simp: lower_char_eq_iff char_eq_iff [of x])

lemma lower_char_d: "lower_char x = CHR ''d'' \<longleftrightarrow> x = CHR ''d'' \<or> x = CHR ''D''"
  by (auto simp: lower_char_eq_iff char_eq_iff [of x])

lemma lower_char_f: "lower_char x = CHR ''f'' \<longleftrightarrow> x = CHR ''f'' \<or> x = CHR ''F''"
  by (auto simp: lower_char_eq_iff char_eq_iff [of x])

lemma endswith_lower_pdf: "endswith (lower s) ''.pdf'' \<longleftrightarrow> ends_in_pdf s"
proof (cases "length s < 4")
  case True
  then have "length (rev s) < 4" by simp
  then have "ends_in_pdf s = False"
    unfolding ends_in_pdf_def by (auto split: list.splits)
  with True show ?thesis by (simp add: endswith_def lower_def)
next
  case False
  define stem where "stem = take (length s - 4) s"
  define t where "t = drop (length s - 4) s"
  have s: "s = stem @ t" by (simp add: stem_def t_def)
  have t: "length t = 4" using False by (simp add: t_def)
  from t obtain dot a b c where t': "t = [dot, a, b, c]"
    by (auto simp: length_Suc_conv eval_nat_numeral)
  show ?thesis
    by (auto simp: s t' endswith_def lower_def ends_in_pdf_def lower_char_dot lower_char_p
        lower_char_d lower_char_f)
qed


lemma lower_Jane: "lower ''Jane.Doe@Example.com'' = ''jane.doe@example.com''"
  by code_simp

lemma lower_jane: "lower ''jane.doe@example.com'' = ''jane.doe@example.com''"
  using lower_lower [of "''Jane.Doe@Example.com''"] by (simp only: lower_Jane)

lemma is_space_lower_char: "is_space (lower_char c) = is_space c"
  by (simp add: is_space_def of_char_lower_char Let_def)

lemma lower_strip: "lower (strip s) = strip (lower s)"
proof -
  have c: "is_space \<circ> lower_char = is_space"
    by (rule ext) (simp add: is_space_lower_char)
  have d: "dropWhile is_space (map lower_char xs) = map lower_char (dropWhile is_space xs)" for xs
    by (simp add: dropWhile_map c)
  show ?thesis
    by (simp add: lower_def strip_def rev_map d)
qed

lemma isascii_padded_Jane: "isascii padded_Jane"
  by (simp add: isascii_def padded_Jane_def)

lemma isascii_jane: "isascii ''jane.doe@example.com''"
  by (simp add: isascii_def)

lemma isascii_Jane: "isascii ''Jane.Doe@Example.com''"
  by (simp add: isascii_def)

lemma strip_padded_Jane: "strip padded_Jane = ''Jane.Doe@Example.com''"
  unfolding padded_Jane_def by code_simp

section \<open>Properties of the identifier\<close>

lemma hex_digit_lower: "n < 16 \<Longrightarrow> is_lower_hex (hex_digit n)"
proof -
  have "\<forall>n \<in> set [0..<16]. is_lower_hex (hex_digit n)"
    unfolding is_lower_hex_def hex_digit_def by code_simp
  moreover assume "n < 16"
  ultimately show ?thesis by simp
qed

lemma lower_hex_value: "is_lower_hex c \<Longrightarrow> hex_value c \<noteq> None"
proof -
  have "\<forall>c \<in> set ''0123456789abcdef''. hex_value c \<noteq> None"
    unfolding hex_value_def by code_simp
  moreover assume "is_lower_hex c"
  ultimately show ?thesis unfolding is_lower_hex_def by blast
qed

lemma unat_and_15_byte: "unat (b AND 15 :: byte) < 16"
proof -
  have "b AND 15 \<le> 15" by (rule word_and_le1)
  then have "unat (b AND 15) \<le> 15" by (simp add: word_le_nat_alt)
  then show ?thesis by simp
qed

lemma unat_and_15_UUID: "unat (u AND 15 :: UUID) < 16"
proof -
  have "u AND 15 \<le> 15" by (rule word_and_le1)
  then have "unat (u AND 15) \<le> 15" by (simp add: word_le_nat_alt)
  then show ?thesis by simp
qed

lemma unat_drop_bit_4: "unat (drop_bit 4 (b :: byte)) < 16"
proof -
  have "unat (drop_bit 4 b) = unat b div 16"
    by (simp add: drop_bit_eq_div unat_div)
  moreover have "unat b < 256" using unsigned_less [of b, where ?'a = nat] by simp
  ultimately show ?thesis by simp
qed

lemma length_md5: "length (md5 bs) = 16"
  by (simp add: md5_def le_bytes32_def split: prod.split)

lemma length_hexdigest: "length (hexdigest d) = 2 * length d"
  by (induction d) (simp_all add: hexdigest_def hex_byte_def)

lemma hexdigest_lower_hex: "list_all is_lower_hex (hexdigest d)"
  by (induction d)
    (simp_all add: hexdigest_def hex_byte_def hex_digit_lower unat_and_15_byte unat_drop_bit_4)

lemma int_hex_total: "list_all is_lower_hex s \<Longrightarrow> \<exists>u. int_hex acc s = Some u"
  by (induction s arbitrary: acc) (auto dest: lower_hex_value)

lemma UUID_hex_digest: "\<exists>u. UUID_hex (hexdigest (md5 bs)) = Some u"
  by (simp add: UUID_hex_def length_hexdigest length_md5 int_hex_total hexdigest_lower_hex)

lemma length_hex032: "length (hex032 u) = 32"
  by (simp add: hex032_def)

lemma hex032_lower_hex: "list_all is_lower_hex (hex032 u)"
  by (simp add: hex032_def list_all_iff hex_digit_lower unat_and_15_UUID)

lemma list_all_take: "list_all P xs \<Longrightarrow> list_all P (take n xs)"
  by (auto simp: list_all_iff dest: in_set_takeD)

lemma list_all_drop: "list_all P xs \<Longrightarrow> list_all P (drop n xs)"
  by (auto simp: list_all_iff dest: in_set_dropD)

lemma uuid_format_str_UUID: "uuid_format (str_UUID u)"
  using hex032_lower_hex [of u] length_hex032 [of u]
  by (simp add: uuid_format_def str_UUID_def Let_def list_all_take list_all_drop nth_append)

lemma create_uuid_from_string_format:
  "\<exists>u. create_uuid_from_string val = Some u \<and> uuid_format u"
  using UUID_hex_digest [of "encode_utf8 val"]
  by (auto simp: create_uuid_from_string_def uuid_format_str_UUID)

lemma uuid_jane: "create_uuid_from_string ''jane.doe@example.com'' = Some jane_id"
  unfolding jane_id_def by code_simp

section \<open>Properties of the session\<close>

lemma query_first_SomeD:
  "query_first db i = Some row \<Longrightarrow> Lead_id row = i \<and> row \<in> set db"
  unfolding query_first_def by (auto simp: find_Some_iff)

lemma query_first_None_iff: "query_first db i = None \<longleftrightarrow> i \<notin> Lead_id ` set db"
  unfolding query_first_def by (auto simp: find_None_iff)

lemma query_first_commit_same:
  "query_first db i = Some row \<Longrightarrow> Lead_id (columns lead) = i \<Longrightarrow>
   query_first (commit db lead) i = Some (columns lead)"
  unfolding query_first_def commit_def by (induction db) (auto split: if_splits)

lemma query_first_commit_other:
  "Lead_id (columns lead) \<noteq> j \<Longrightarrow> query_first (commit db lead) j = query_first db j"
  unfolding query_first_def commit_def by (induction db) auto

lemma update_resume_present:
  assumes "query_first db i = Some row"
  shows "update_resume i resume db =
    (Inr (from_orm (row\<lparr>Lead_state := PENDING, Lead_resume_filename := filename resume\<rparr>)),
     commit db \<lparr>columns = row\<lparr>Lead_state := PENDING, Lead_resume_filename := filename resume\<rparr>,
                resume_date = Some (read resume)\<rparr>)"
proof -
  have i: "Lead_id row = i" using assms by (simp add: query_first_SomeD)
  show ?thesis
    using assms i
    by (simp add: update_resume_def loaded_def refresh_def Let_def query_first_commit_same)
qed

lemma update_lead_state_present:
  assumes "query_first db i = Some row"
  shows "update_lead_state i u db =
    (Inr (from_orm (row\<lparr>Lead_state := LeadStateUpdate_state u\<rparr>)),
     commit db \<lparr>columns = row\<lparr>Lead_state := LeadStateUpdate_state u\<rparr>, resume_date = None\<rparr>)"
proof -
  have i: "Lead_id row = i" using assms by (simp add: query_first_SomeD)
  show ?thesis
    using assms i
    by (simp add: update_lead_state_def loaded_def refresh_def Let_def query_first_commit_same)
qed

lemma query_first_snoc:
  "query_first (db @ [row]) i =
     (case query_first db i of
        Some r \<Rightarrow> Some r
      | None \<Rightarrow> if Lead_id row = i then Some row else None)"
  unfolding query_first_def by (induction db) auto

lemma query_first_jane: "query_first [jane] jane_id = Some jane"
  by (simp add: query_first_def jane_def)

section \<open>Properties of \<open>create_lead\<close>\<close>

lemma create_lead_existing:
  "ends_in_pdf (filename resume) \<Longrightarrow> create_uuid_from_string (lower email) = Some lead_id \<Longrightarrow>
   query_first (leads w) lead_id = Some row \<Longrightarrow>
   create_lead first_name last_name email resume w =
     (Inr (Str ''you have already applied. you can update your resume''), w)"
  by (simp add: create_lead_def endswith_lower_pdf Let_def)

lemma create_lead_fresh:
  assumes "ends_in_pdf (filename resume)"
    and "create_uuid_from_string (lower email) = Some lead_id"
    and "query_first (leads w) lead_id = None"
  shows "create_lead first_name last_name email resume w =
    (Inr (Out \<lparr>LeadOut_id = lead_id, LeadOut_first_name = first_name,
               LeadOut_last_name = last_name, LeadOut_email = lower email,
               LeadOut_resume_filename = filename resume, LeadOut_state = PENDING\<rparr>),
     \<lparr>leads = leads w @
        [\<lparr>Lead_id = lead_id, Lead_first_name = first_name, Lead_last_name = last_name,
          Lead_email = lower email, Lead_resume_filename = filename resume,
          Lead_resume_data = read resume, Lead_state = PENDING\<rparr>],
      sent = sent w @
        [\<lparr>msg_to = lower email, msg_subject = ''Thank you for your submission!'',
          msg_body = ''Dear '' @ first_name @
            '',\<newline>\<newline>Thank you for submitting your lead. We will contact you soon.\<newline>''\<rparr>,
         \<lparr>msg_to = ATTORNEY_EMAIL, msg_subject = ''New Lead Submitted'',
          msg_body = ''Lead from '' @ first_name @ '' '' @ last_name @ '' ('' @ lower email
            @ '') received.''\<rparr>]\<rparr>)"
proof -
  let ?row = "\<lparr>Lead_id = lead_id, Lead_first_name = first_name, Lead_last_name = last_name,
          Lead_email = lower email, Lead_resume_filename = filename resume,
          Lead_resume_data = read resume, Lead_state = PENDING\<rparr>"
  have q: "query_first (leads w @ [?row]) lead_id = Some ?row"
    using assms(3) by (simp add: query_first_snoc)
  show ?thesis
    using assms q
    by (simp add: create_lead_def endswith_lower_pdf Let_def lower_lower loaded_def
          add_commit_def refresh_def send_email_def from_orm_def)
qed

section \<open>Replacing the resume\<close>

text \<open>
  C1 (\<open>replaceResume\<close> overwrites the stored filename and the stored bytes, resets the
  state to \<open>PENDING\<close> and returns the updated lead). The handler assigns the uploaded
  bytes to the attribute \<open>resume_date\<close>, which is no column, so the column \<open>resume_data\<close> is
  never written. For the lead \<open>jane\<close> (state \<open>REACHED_OUT\<close>, four stored bytes) and an
  upload of six other bytes, the filename and the state are updated and the stored bytes
  stay the four old ones.
\<close>

theorem update_resume_keeps_stored_bytes:
  "update_resume jane_id resume2 [jane] =
     (Inr (from_orm (jane\<lparr>Lead_state := PENDING, Lead_resume_filename := ''resume2.pdf''\<rparr>)),
      [jane\<lparr>Lead_state := PENDING, Lead_resume_filename := ''resume2.pdf''\<rparr>])
   \<and> Lead_resume_data (jane\<lparr>Lead_state := PENDING, Lead_resume_filename := ''resume2.pdf''\<rparr>)
       = [0x25, 0x50, 0x44, 0x46]
   \<and> read resume2 \<noteq> [0x25, 0x50, 0x44, 0x46]"
  by (simp add: update_resume_present [OF query_first_jane] commit_def resume2_def)
     (simp add: jane_def)

section \<open>Updating the state\<close>

text \<open>
  C6: for every lead in the store and every state of the enumeration,
  \<open>update_lead_state\<close> succeeds whatever the lead's state was, returns the lead with the
  requested state, stores it, and a second call with the same state returns the same
  lead and leaves the same store.
\<close>

theorem update_lead_state_sets_requested_state:
  assumes "query_first db i = Some row"
  shows "\<exists>db'. update_lead_state i u db =
                 (Inr (from_orm (row\<lparr>Lead_state := LeadStateUpdate_state u\<rparr>)), db')
           \<and> query_first db' i = Some (row\<lparr>Lead_state := LeadStateUpdate_state u\<rparr>)
           \<and> update_lead_state i u db' = update_lead_state i u db"
proof -
  let ?row = "row\<lparr>Lead_state := LeadStateUpdate_state u\<rparr>"
  let ?db = "commit db \<lparr>columns = ?row, resume_date = None\<rparr>"
  have i: "Lead_id row = i" using assms by (simp add: query_first_SomeD)
  have q: "query_first ?db i = Some ?row"
    using assms i by (simp add: query_first_commit_same)
  have c: "commit ?db \<lparr>columns = ?row, resume_date = None\<rparr> = ?db"
    unfolding commit_def by (induction db) auto
  show ?thesis
    using update_lead_state_present [OF assms, of u] update_lead_state_present [OF q, of u] q c
    by simp
qed

theorem update_lead_state_witness:
  "query_first [jane] jane_id = Some jane \<and>
   (\<exists>db'. update_lead_state jane_id \<lparr>LeadStateUpdate_state = PENDING\<rparr> [jane] =
            (Inr (from_orm (jane\<lparr>Lead_state := PENDING\<rparr>)), db')
      \<and> query_first db' jane_id = Some (jane\<lparr>Lead_state := PENDING\<rparr>)
      \<and> update_lead_state jane_id \<lparr>LeadStateUpdate_state = PENDING\<rparr> db' =
          update_lead_state jane_id \<lparr>LeadStateUpdate_state = PENDING\<rparr> [jane])"
  using update_lead_state_sets_requested_state
          [OF query_first_jane, of "\<lparr>LeadStateUpdate_state = PENDING\<rparr>"]
  by (simp add: query_first_jane)

section \<open>Unknown identifiers\<close>

text \<open>
  C7: each of \<open>get_lead\<close>, \<open>download_resume\<close>, \<open>update_resume\<close> and
  \<open>update_lead_state\<close> raises the 404 exception "Lead not found" exactly when no row of
  the table has the given id, and then leaves the table as it was.
\<close>

theorem not_found_iff_absent:
  "(fst (get_lead i db) = Inl (HTTPException 404 ''Lead not found'') \<longleftrightarrow> i \<notin> Lead_id ` set db)
   \<and> (fst (download_resume i db) = Inl (HTTPException 404 ''Lead not found'')
        \<longleftrightarrow> i \<notin> Lead_id ` set db)
   \<and> (fst (update_resume i resume db) = Inl (HTTPException 404 ''Lead not found'')
        \<longleftrightarrow> i \<notin> Lead_id ` set db)
   \<and> (fst (update_lead_state i u db) = Inl (HTTPException 404 ''Lead not found'')
        \<longleftrightarrow> i \<notin> Lead_id ` set db)
   \<and> (i \<notin> Lead_id ` set db \<longrightarrow>
        snd (get_lead i db) = db \<and> snd (download_resume i db) = db
        \<and> snd (update_resume i resume db) = db \<and> snd (update_lead_state i u db) = db)"
proof (cases "query_first db i")
  case None
  then have "i \<notin> Lead_id ` set db" by (simp add: query_first_None_iff)
  with None show ?thesis
    by (simp add: get_lead_def download_resume_def update_resume_def update_lead_state_def)
next
  case (Some row)
  then have "i \<in> Lead_id ` set db"
    using query_first_None_iff [of db i] by simp
  with Some show ?thesis
    by (simp add: get_lead_def download_resume_def update_resume_present
                  update_lead_state_present)
qed

theorem not_found_witness:
  "''nobody'' \<notin> Lead_id ` set [jane]
   \<and> fst (get_lead ''nobody'' [jane]) = Inl (HTTPException 404 ''Lead not found'')
   \<and> fst (download_resume ''nobody'' [jane]) = Inl (HTTPException 404 ''Lead not found'')
   \<and> fst (update_resume ''nobody'' resume2 [jane]) = Inl (HTTPException 404 ''Lead not found'')
   \<and> fst (update_lead_state ''nobody'' \<lparr>LeadStateUpdate_state = REACHED_OUT\<rparr> [jane])
       = Inl (HTTPException 404 ''Lead not found'')
   \<and> snd (get_lead ''nobody'' [jane]) = [jane]
   \<and> snd (download_resume ''nobody'' [jane]) = [jane]
   \<and> snd (update_resume ''nobody'' resume2 [jane]) = [jane]
   \<and> snd (update_lead_state ''nobody'' \<lparr>LeadStateUpdate_state = REACHED_OUT\<rparr> [jane]) = [jane]
   \<and> fst (get_lead jane_id [jane]) \<noteq> Inl (HTTPException 404 ''Lead not found'')"
proof -
  have a: "''nobody'' \<notin> Lead_id ` set [jane]" by (simp add: jane_def jane_id_def)
  have b: "jane_id \<in> Lead_id ` set [jane]" by (simp add: jane_def)
  show ?thesis
    using a b
      not_found_iff_absent [of "''nobody''" "[jane]" resume2
        "\<lparr>LeadStateUpdate_state = REACHED_OUT\<rparr>"]
      not_found_iff_absent [of jane_id "[jane]" resume2
        "\<lparr>LeadStateUpdate_state = REACHED_OUT\<rparr>"]
    by blast
qed

section \<open>The API key\<close>

text \<open>
  C8: each of the five internal routes runs its handler only when the supplied key is
  the configured \<open>INTERNAL_API_KEY\<close>. With any other key, or none, the route raises the
  401 exception "Unauthorized" whatever the table holds and leaves the table as it was;
  the dependency does so for any handler, which is then never applied.
\<close>

theorem admin_routes_need_the_key:
  "(api_key \<noteq> Some INTERNAL_API_KEY \<longrightarrow>
      Depends_get_api_key api_key handler db = (Inl (HTTPException 401 ''Unauthorized''), db)
    \<and> GET_leads api_key db = (Inl (HTTPException 401 ''Unauthorized''), db)
    \<and> GET_lead api_key i db = (Inl (HTTPException 401 ''Unauthorized''), db)
    \<and> GET_lead_resume api_key i db = (Inl (HTTPException 401 ''Unauthorized''), db)
    \<and> PUT_lead_resume api_key i resume db = (Inl (HTTPException 401 ''Unauthorized''), db)
    \<and> PUT_lead_state api_key i u db = (Inl (HTTPException 401 ''Unauthorized''), db))
   \<and> (api_key = Some INTERNAL_API_KEY \<longrightarrow>
      Depends_get_api_key api_key handler db = handler db
    \<and> GET_leads api_key db = get_leads db
    \<and> GET_lead api_key i db = get_lead i db
    \<and> GET_lead_resume api_key i db = download_resume i db
    \<and> PUT_lead_resume api_key i resume db = update_resume i resume db
    \<and> PUT_lead_state api_key i u db = update_lead_state i u db)"
  by (simp add: GET_leads_def GET_lead_def GET_lead_resume_def PUT_lead_resume_def
        PUT_lead_state_def Depends_get_api_key_def get_api_key_def)

theorem admin_routes_witness:
  "None \<noteq> Some INTERNAL_API_KEY \<and> Some ''secret_internal_key'' \<noteq> Some INTERNAL_API_KEY
   \<and> GET_leads None [jane] = (Inl (HTTPException 401 ''Unauthorized''), [jane])
   \<and> GET_lead_resume None jane_id [jane] = (Inl (HTTPException 401 ''Unauthorized''), [jane])
   \<and> PUT_lead_state (Some ''secret_internal_key'') jane_id
        \<lparr>LeadStateUpdate_state = PENDING\<rparr> [jane]
      = (Inl (HTTPException 401 ''Unauthorized''), [jane])
   \<and> PUT_lead_state (Some ''SECRET_INTERNAL_KEY'') jane_id
        \<lparr>LeadStateUpdate_state = PENDING\<rparr> [jane]
      = update_lead_state jane_id \<lparr>LeadStateUpdate_state = PENDING\<rparr> [jane]"
proof -
  have a: "Some ''secret_internal_key'' \<noteq> Some INTERNAL_API_KEY"
    by (simp add: INTERNAL_API_KEY_def)
  have b: "Some ''SECRET_INTERNAL_KEY'' = Some INTERNAL_API_KEY"
    by (simp add: INTERNAL_API_KEY_def)
  show ?thesis
    using a b
      admin_routes_need_the_key [of None get_leads "[jane]" jane_id resume2
         "\<lparr>LeadStateUpdate_state = PENDING\<rparr>"]
      admin_routes_need_the_key [of "Some ''secret_internal_key''" get_leads "[jane]" jane_id
         resume2 "\<lparr>LeadStateUpdate_state = PENDING\<rparr>"]
      admin_routes_need_the_key [of "Some ''SECRET_INTERNAL_KEY''" get_leads "[jane]" jane_id
         resume2 "\<lparr>LeadStateUpdate_state = PENDING\<rparr>"]
    by simp
qed

section \<open>What the updates leave alone\<close>

text \<open>
  C10: for a lead in the store, \<open>update_resume\<close> leaves its id, first name, last name
  and email as they were, and \<open>update_lead_state\<close> leaves every column but the state as
  it was; neither changes what a query for another id finds.
\<close>

theorem updates_touch_only_their_fields:
  assumes "query_first db i = Some row"
  shows "(\<exists>row'. query_first (snd (update_resume i resume db)) i = Some row'
            \<and> Lead_id row' = Lead_id row \<and> Lead_first_name row' = Lead_first_name row
            \<and> Lead_last_name row' = Lead_last_name row \<and> Lead_email row' = Lead_email row)
       \<and> (\<exists>row'. query_first (snd (update_lead_state i u db)) i = Some row'
            \<and> Lead_id row' = Lead_id row \<and> Lead_first_name row' = Lead_first_name row
            \<and> Lead_last_name row' = Lead_last_name row \<and> Lead_email row' = Lead_email row
            \<and> Lead_resume_filename row' = Lead_resume_filename row
            \<and> Lead_resume_data row' = Lead_resume_data row)
       \<and> (\<forall>j. j \<noteq> i \<longrightarrow>
            query_first (snd (update_resume i resume db)) j = query_first db j
            \<and> query_first (snd (update_lead_state i u db)) j = query_first db j)"
proof -
  have i: "Lead_id row = i" using assms by (simp add: query_first_SomeD)
  show ?thesis
    using assms i
    by (simp add: update_resume_present update_lead_state_present query_first_commit_same
          query_first_commit_other)
qed

theorem updates_touch_only_their_fields_witness:
  "query_first [jane] jane_id = Some jane
   \<and> (\<exists>row'. query_first (snd (update_resume jane_id resume2 [jane])) jane_id = Some row'
            \<and> Lead_id row' = Lead_id jane \<and> Lead_first_name row' = Lead_first_name jane
            \<and> Lead_last_name row' = Lead_last_name jane \<and> Lead_email row' = Lead_email jane)
   \<and> (\<exists>row'. query_first
                 (snd (update_lead_state jane_id \<lparr>LeadStateUpdate_state = PENDING\<rparr> [jane]))
                 jane_id = Some row'
            \<and> Lead_id row' = Lead_id jane \<and> Lead_first_name row' = Lead_first_name jane
            \<and> Lead_last_name row' = Lead_last_name jane \<and> Lead_email row' = Lead_email jane
            \<and> Lead_resume_filename row' = Lead_resume_filename jane
            \<and> Lead_resume_data row' = Lead_resume_data jane)"
  using updates_touch_only_their_fields
          [OF query_first_jane, of resume2 "\<lparr>LeadStateUpdate_state = PENDING\<rparr>"]
  by (simp add: query_first_jane)

section \<open>The derived identifier\<close>

text \<open>
  C2: two submitted ASCII emails that are equal after lowercasing and trimming get the
  same identifier, a string of 36 characters in the canonical UUID form. The form type
  trims: what the theorem takes from the library is that the address handed to the
  handler is the submitted value stripped, up to the case of its letters. The handler
  lowercases it and derives the identifier, so both submissions name the same lead,
  and when that lead is in the table both are answered as already applied.
\<close>

theorem same_normalized_email_same_uuid:
  assumes "isascii email1" and "isascii email2"
    and "spec_normalize email1 = spec_normalize email2"
    and "EmailStr email1 = Some v1" and "lower v1 = lower (strip email1)"
    and "EmailStr email2 = Some v2" and "lower v2 = lower (strip email2)"
  shows "\<exists>u. create_uuid_from_string (lower v1) = Some u
           \<and> create_uuid_from_string (lower v2) = Some u \<and> uuid_format u
           \<and> (ends_in_pdf (filename resume) \<longrightarrow> query_first (leads w) u \<noteq> None \<longrightarrow>
                POST_leads EmailStr first_name last_name email1 resume w
                  = (Inr (Str ''you have already applied. you can update your resume''), w)
              \<and> POST_leads EmailStr first_name last_name email2 resume w
                  = (Inr (Str ''you have already applied. you can update your resume''), w))"
proof -
  have "lower v1 = spec_normalize email1" and "lower v2 = spec_normalize email2"
    using assms(5,7) by (simp_all add: spec_normalize_def lower_strip)
  then have same: "lower v2 = lower v1" using assms(3) by simp
  obtain u where u: "create_uuid_from_string (lower v1) = Some u" and f: "uuid_format u"
    using create_uuid_from_string_format [of "lower v1"] by blast
  have "POST_leads EmailStr first_name last_name email1 resume w
          = (Inr (Str ''you have already applied. you can update your resume''), w)
      \<and> POST_leads EmailStr first_name last_name email2 resume w
          = (Inr (Str ''you have already applied. you can update your resume''), w)"
    if "ends_in_pdf (filename resume)" and "query_first (leads w) u \<noteq> None"
  proof -
    from that(2) obtain row where "query_first (leads w) u = Some row" by auto
    with that(1) u same assms(4,6) show ?thesis
      by (simp add: POST_leads_def create_lead_existing)
  qed
  with u f same show ?thesis by auto
qed

theorem same_normalized_email_same_uuid_witness:
  "isascii padded_Jane \<and> isascii ''jane.doe@example.com''
   \<and> spec_normalize padded_Jane = spec_normalize ''jane.doe@example.com''
   \<and> (\<lambda>value. Some (strip value)) padded_Jane = Some ''Jane.Doe@Example.com''
   \<and> lower ''Jane.Doe@Example.com'' = lower (strip padded_Jane)
   \<and> (\<lambda>value. Some (strip value)) ''jane.doe@example.com'' = Some ''jane.doe@example.com''
   \<and> lower ''jane.doe@example.com'' = lower (strip ''jane.doe@example.com'')
   \<and> create_uuid_from_string (lower ''Jane.Doe@Example.com'') = Some jane_id
   \<and> create_uuid_from_string (lower ''jane.doe@example.com'') = Some jane_id
   \<and> uuid_format jane_id
   \<and> POST_leads (\<lambda>value. Some (strip value)) ''Janet'' ''Roe'' padded_Jane resume2
        \<lparr>leads = [jane], sent = []\<rparr>
       = (Inr (Str ''you have already applied. you can update your resume''),
          \<lparr>leads = [jane], sent = []\<rparr>)"
proof -
  have s2: "strip ''jane.doe@example.com'' = ''jane.doe@example.com''"
    by code_simp
  have n: "spec_normalize padded_Jane = spec_normalize ''jane.doe@example.com''"
    by (simp add: spec_normalize_def flip: lower_strip)
       (simp add: strip_padded_Jane s2 lower_Jane lower_jane)
  have e1: "(\<lambda>value. Some (strip value)) padded_Jane = Some ''Jane.Doe@Example.com''"
    by (simp add: strip_padded_Jane)
  have l1: "lower ''Jane.Doe@Example.com'' = lower (strip padded_Jane)"
    by (simp add: strip_padded_Jane)
  have e2: "(\<lambda>value. Some (strip value)) ''jane.doe@example.com''
              = Some ''jane.doe@example.com''"
    by (simp add: s2)
  have l2: "lower ''jane.doe@example.com'' = lower (strip ''jane.doe@example.com'')"
    by (simp add: s2)
  have p: "ends_in_pdf (filename resume2)"
    by (simp add: ends_in_pdf_def resume2_def)
  have u: "create_uuid_from_string (lower ''Jane.Doe@Example.com'') = Some jane_id"
    by (simp only: lower_Jane uuid_jane)
  have q: "query_first (leads \<lparr>leads = [jane], sent = []\<rparr>) jane_id \<noteq> None"
    by (simp add: query_first_jane)
  from same_normalized_email_same_uuid
         [where EmailStr = "\<lambda>value. Some (strip value)" and resume = resume2
            and w = "\<lparr>leads = [jane], sent = []\<rparr>" and first_name = "''Janet''"
            and last_name = "''Roe''",
          OF isascii_padded_Jane isascii_jane n e1 l1 e2 l2]
  obtain u' where u': "create_uuid_from_string (lower ''Jane.Doe@Example.com'') = Some u'"
    and u'': "create_uuid_from_string (lower ''jane.doe@example.com'') = Some u'"
    and f: "uuid_format u'"
    and r: "ends_in_pdf (filename resume2) \<longrightarrow>
            query_first (leads \<lparr>leads = [jane], sent = []\<rparr>) u' \<noteq> None \<longrightarrow>
            POST_leads (\<lambda>value. Some (strip value)) ''Janet'' ''Roe'' padded_Jane resume2
              \<lparr>leads = [jane], sent = []\<rparr>
             = (Inr (Str ''you have already applied. you can update your resume''),
                \<lparr>leads = [jane], sent = []\<rparr>)"
    by blast
  from u u' have "u' = jane_id" by simp
  with u' u'' f r p q isascii_padded_Jane isascii_jane n e1 l1 e2 l2 show ?thesis
    by simp
qed

section \<open>Submissions\<close>

text \<open>
  C4: a submission whose filename does not end in \<open>.pdf\<close> (in any mix of cases) gets the
  file-type message, and the table and the messages sent are as before; a submission whose
  filename does end so never gets that message.
\<close>

theorem create_lead_rejects_non_pdf:
  "(\<not> ends_in_pdf (filename resume) \<longrightarrow>
      create_lead first_name last_name email resume w =
        (Inr (Str ''file error: only pdf file of resume is allowed.''), w))
   \<and> (ends_in_pdf (filename resume) \<longrightarrow>
      fst (create_lead first_name last_name email resume w)
        \<noteq> Inr (Str ''file error: only pdf file of resume is allowed.''))"
  by (simp add: create_lead_def endswith_lower_pdf Let_def split: option.split)

theorem create_lead_rejects_non_pdf_witness:
  "\<not> ends_in_pdf (filename \<lparr>filename = ''resume.docx'', read = []\<rparr>)
   \<and> create_lead ''Jane'' ''Doe'' ''Jane.Doe@Example.com''
        \<lparr>filename = ''resume.docx'', read = []\<rparr> empty_world
       = (Inr (Str ''file error: only pdf file of resume is allowed.''), empty_world)
   \<and> ends_in_pdf (filename \<lparr>filename = ''Resume.PDF'', read = []\<rparr>)
   \<and> ends_in_pdf (filename \<lparr>filename = ''resume.Pdf'', read = []\<rparr>)
   \<and> fst (create_lead ''Jane'' ''Doe'' ''Jane.Doe@Example.com''
        \<lparr>filename = ''Resume.PDF'', read = []\<rparr> empty_world)
       \<noteq> Inr (Str ''file error: only pdf file of resume is allowed.'')"
proof -
  have a: "\<not> ends_in_pdf (filename \<lparr>filename = ''resume.docx'', read = []\<rparr>)"
    by (simp add: ends_in_pdf_def)
  have b: "ends_in_pdf (filename \<lparr>filename = ''Resume.PDF'', read = []\<rparr>)"
    by (simp add: ends_in_pdf_def)
  have c: "ends_in_pdf (filename \<lparr>filename = ''resume.Pdf'', read = []\<rparr>)"
    by (simp add: ends_in_pdf_def)
  show ?thesis
    using a b c
      create_lead_rejects_non_pdf [of "\<lparr>filename = ''resume.docx'', read = []\<rparr>"
        "''Jane''" "''Doe''" "''Jane.Doe@Example.com''" empty_world]
      create_lead_rejects_non_pdf [of "\<lparr>filename = ''Resume.PDF'', read = []\<rparr>"
        "''Jane''" "''Doe''" "''Jane.Doe@Example.com''" empty_world]
    by blast
qed

text \<open>
  C5: the route answers a submission whose email the form type accepts (an ASCII
  address here), whose filename ends in \<open>.pdf\<close> and whose derived id is not in the table
  as follows. It appends one lead to the table, with the id derived from the lowercased
  email, the lowercased email, the submitted names, filename and bytes, and state
  \<open>PENDING\<close>; it sends exactly two messages, the first to the submitter's address as
  lowercased and the second to \<open>ATTORNEY_EMAIL\<close>; and it returns the representation of
  the new lead.
\<close>

theorem POST_leads_new_lead:
  assumes "EmailStr submitted = Some email" and "isascii email"
    and "ends_in_pdf (filename resume)"
    and "create_uuid_from_string (lower email) = Some lead_id"
    and "query_first (leads w) lead_id = None"
  shows "(let row = \<lparr>Lead_id = lead_id, Lead_first_name = first_name,
                     Lead_last_name = last_name, Lead_email = lower email,
                     Lead_resume_filename = filename resume, Lead_resume_data = read resume,
                     Lead_state = PENDING\<rparr>
          in POST_leads EmailStr first_name last_name submitted resume w =
            (Inr (Out (from_orm row)),
             \<lparr>leads = leads w @ [row],
              sent = sent w @
                [\<lparr>msg_to = lower email, msg_subject = ''Thank you for your submission!'',
                  msg_body = ''Dear '' @ first_name @
                    '',\<newline>\<newline>Thank you for submitting your lead. We will contact you soon.\<newline>''\<rparr>,
                 \<lparr>msg_to = ATTORNEY_EMAIL, msg_subject = ''New Lead Submitted'',
                  msg_body = ''Lead from '' @ first_name @ '' '' @ last_name @ '' (''
                    @ lower email @ '') received.''\<rparr>]\<rparr>))"
  using assms(1) create_lead_fresh [OF assms(3,4,5), of first_name last_name]
  by (simp add: POST_leads_def Let_def from_orm_def)

theorem POST_leads_new_lead_witness:
  "(\<lambda>value. Some (strip value)) padded_Jane = Some ''Jane.Doe@Example.com''
   \<and> isascii ''Jane.Doe@Example.com''
   \<and> ends_in_pdf (filename jane_form)
   \<and> create_uuid_from_string (lower ''Jane.Doe@Example.com'') = Some jane_id
   \<and> query_first (leads empty_world) jane_id = None
   \<and> POST_leads (\<lambda>value. Some (strip value)) ''Jane'' ''Doe'' padded_Jane jane_form empty_world =
      (Inr (Out (from_orm (jane\<lparr>Lead_state := PENDING\<rparr>))),
       \<lparr>leads = [jane\<lparr>Lead_state := PENDING\<rparr>],
        sent = [\<lparr>msg_to = ''jane.doe@example.com'',
                 msg_subject = ''Thank you for your submission!'',
                 msg_body = ''Dear Jane,\<newline>\<newline>Thank you for submitting your lead. We will contact you soon.\<newline>''\<rparr>,
                \<lparr>msg_to = ''attorney@yourfirm.com'', msg_subject = ''New Lead Submitted'',
                 msg_body = ''Lead from Jane Doe (jane.doe@example.com) received.''\<rparr>]\<rparr>)"
proof -
  have e: "(\<lambda>value. Some (strip value)) padded_Jane = Some ''Jane.Doe@Example.com''"
    by (simp add: strip_padded_Jane)
  have a: "ends_in_pdf (filename jane_form)"
    by (simp add: ends_in_pdf_def jane_form_def)
  have b: "create_uuid_from_string (lower ''Jane.Doe@Example.com'') = Some jane_id"
    by (simp only: lower_Jane uuid_jane)
  have c: "query_first (leads empty_world) jane_id = None"
    by (simp add: empty_world_def query_first_def)
  show ?thesis
    using e a b c
      POST_leads_new_lead [where EmailStr = "\<lambda>value. Some (strip value)"
        and submitted = padded_Jane and first_name = "''Jane''" and last_name = "''Doe''",
        OF e isascii_Jane a b c]
    by (simp add: Let_def lower_Jane jane_def jane_form_def empty_world_def from_orm_def
          ATTORNEY_EMAIL_def isascii_Jane)
qed

text \<open>
  C3: a submission that has passed the filename check (its filename ends in \<open>.pdf\<close>)
  and whose derived id already has a lead in the table gets the "already applied"
  message, and the table and the messages sent are exactly as they were: the lead is
  unchanged, no lead is added and nothing is sent. The email is an ASCII address.
\<close>

theorem create_lead_duplicate:
  assumes "isascii email" and "ends_in_pdf (filename resume)"
    and "create_uuid_from_string (lower email) = Some lead_id"
    and "query_first (leads w) lead_id = Some row"
  shows "create_lead first_name last_name email resume w =
           (Inr (Str ''you have already applied. you can update your resume''), w)"
  using assms(2,3,4) by (rule create_lead_existing)

theorem create_lead_duplicate_witness:
  "isascii ''Jane.Doe@Example.com''
   \<and> ends_in_pdf (filename resume2)
   \<and> create_uuid_from_string (lower ''Jane.Doe@Example.com'') = Some jane_id
   \<and> query_first (leads \<lparr>leads = [jane], sent = []\<rparr>) jane_id = Some jane
   \<and> create_lead ''Janet'' ''Roe'' ''Jane.Doe@Example.com'' resume2
        \<lparr>leads = [jane], sent = []\<rparr>
       = (Inr (Str ''you have already applied. you can update your resume''),
          \<lparr>leads = [jane], sent = []\<rparr>)"
proof -
  have a: "create_uuid_from_string (lower ''Jane.Doe@Example.com'') = Some jane_id"
    by (simp only: lower_Jane uuid_jane)
  have b: "query_first (leads \<lparr>leads = [jane], sent = []\<rparr>) jane_id = Some jane"
    by (simp add: query_first_jane)
  have c: "ends_in_pdf (filename resume2)"
    by (simp add: ends_in_pdf_def resume2_def)
  show ?thesis
    using a b c isascii_Jane
      create_lead_duplicate [OF isascii_Jane c a b, of "''Janet''" "''Roe''"]
    by simp
qed

section \<open>Listing the leads\<close>

lemma mset_insort_desc: "mset (insort_desc x xs) = add_mset x (mset xs)"
  by (induction xs) auto

lemma mset_order_by_id_desc: "mset (order_by_id_desc db) = mset db"
  unfolding order_by_id_desc_def by (induction db) (auto simp: mset_insort_desc)

lemma set_insort_desc: "set (insort_desc x xs) = insert x (set xs)"
  using mset_insort_desc [of x xs, THEN arg_cong, of set_mset] by simp

lemma desc_insort_desc:
  "sorted_wrt (\<lambda>a b. Lead_id b \<le> Lead_id a) xs \<Longrightarrow>
   sorted_wrt (\<lambda>a b. Lead_id b \<le> Lead_id a) (insort_desc x xs)"
  by (induction xs) (auto simp: set_insort_desc)

lemma desc_order_by_id_desc:
  "sorted_wrt (\<lambda>a b. Lead_id b \<le> Lead_id a) (order_by_id_desc db)"
  unfolding order_by_id_desc_def by (induction db) (auto simp: desc_insort_desc)

lemma strict_desc:
  "sorted_wrt (\<lambda>a b. Lead_id b \<le> Lead_id a) xs \<Longrightarrow> distinct (map Lead_id xs) \<Longrightarrow>
   sorted_wrt (\<lambda>a b. Lead_id b < Lead_id a) xs"
  by (induction xs) (auto simp: less_le image_iff)

lemma distinct_order_by_id_desc:
  "distinct (map Lead_id (order_by_id_desc db)) = distinct (map Lead_id db)"
proof -
  have "mset (map Lead_id (order_by_id_desc db)) = mset (map Lead_id db)"
    by (simp add: mset_order_by_id_desc)
  then show ?thesis by (metis mset_eq_imp_distinct_iff)
qed

lemma get_leads_ann_jane:
  "get_leads [jane, ann] = (Inr [from_orm ann, from_orm jane], [jane, ann])"
  by (simp add: get_leads_def order_by_id_desc_def jane_def ann_def jane_id_def ann_id_def)

text \<open>
  C9: \<open>get_leads\<close> returns the representation of every row of the table, each once and
  no other, in descending order of id, and leaves the table as it is. The table holds
  every lead created (no handler removes a row), and its ids are distinct, \<open>id\<close> being
  the primary key: the order is then strictly descending.
\<close>

theorem get_leads_every_lead_descending:
  "\<exists>outs. get_leads db = (Inr outs, db)
     \<and> mset outs = image_mset from_orm (mset db)
     \<and> sorted_wrt (\<lambda>a b. LeadOut_id b \<le> LeadOut_id a) outs
     \<and> (distinct (map Lead_id db) \<longrightarrow> sorted_wrt (\<lambda>a b. LeadOut_id b < LeadOut_id a) outs)"
proof -
  have m: "mset (map from_orm (order_by_id_desc db)) = image_mset from_orm (mset db)"
    by (simp add: mset_order_by_id_desc)
  have "sorted_wrt (\<lambda>a b. Lead_id b \<le> Lead_id a) (order_by_id_desc db)"
    by (rule desc_order_by_id_desc)
  then have o: "sorted_wrt (\<lambda>a b. LeadOut_id b \<le> LeadOut_id a)
                  (map from_orm (order_by_id_desc db))"
    by (simp add: sorted_wrt_map from_orm_def)
  have s: "sorted_wrt (\<lambda>a b. LeadOut_id b < LeadOut_id a)
             (map from_orm (order_by_id_desc db))"
    if "distinct (map Lead_id db)"
  proof -
    have "sorted_wrt (\<lambda>a b. Lead_id b < Lead_id a) (order_by_id_desc db)"
      using that
      by (intro strict_desc desc_order_by_id_desc) (simp add: distinct_order_by_id_desc)
    then show ?thesis by (simp add: sorted_wrt_map from_orm_def)
  qed
  show ?thesis
    unfolding get_leads_def using m o s by blast
qed

theorem get_leads_witness:
  "distinct (map Lead_id [jane, ann])
   \<and> get_leads [jane, ann] = (Inr [from_orm ann, from_orm jane], [jane, ann])
   \<and> mset [from_orm ann, from_orm jane] = image_mset from_orm (mset [jane, ann])
   \<and> sorted_wrt (\<lambda>a b. LeadOut_id b < LeadOut_id a) [from_orm ann, from_orm jane]"
proof -
  have d: "distinct (map Lead_id [jane, ann])"
    by (simp add: jane_def ann_def jane_id_def ann_id_def)
  from get_leads_every_lead_descending [of "[jane, ann]"]
  obtain outs where "get_leads [jane, ann] = (Inr outs, [jane, ann])"
    and "mset outs = image_mset from_orm (mset [jane, ann])"
    and "distinct (map Lead_id [jane, ann]) \<longrightarrow>
         sorted_wrt (\<lambda>a b. LeadOut_id b < LeadOut_id a) outs"
    by blast
  with d get_leads_ann_jane show ?thesis by simp
qed

end
